theory Spec2Isabelle
  imports Main "HOL-Library.Sublist"
begin

section \<open>JavaScript values and strings\<close>

text \<open>
  The fields the toolkit reads from vendor chunks and chat messages are strings that may be
  absent. A field is modelled by the three shapes the code distinguishes: \<open>undefined\<close>
  (the property is missing), \<open>null\<close>, and a string. Strings are lists of characters.
\<close>

datatype jsval = JUndefined | JNull | JStr string

text \<open>JavaScript truthiness: \<open>undefined\<close>, \<open>null\<close> and the empty string are falsy.\<close>

fun truthy :: "jsval \<Rightarrow> bool" where
  "truthy JUndefined = False"
| "truthy JNull = False"
| "truthy (JStr s) = (s \<noteq> [])"

text \<open>The string a value becomes as an operand of \<open>+\<close> with a string, and of \<open>+=\<close>.\<close>

fun to_string :: "jsval \<Rightarrow> string" where
  "to_string JUndefined = ''undefined''"
| "to_string JNull = ''null''"
| "to_string (JStr s) = s"

fun is_str :: "jsval \<Rightarrow> bool" where
  "is_str (JStr s) = True"
| "is_str v = False"

text \<open>
  \<open>(s.match(/pat/g) || []).length\<close> for a literal, non-empty pattern: the number of
  matches found scanning left to right, each search resuming after the previous match.
\<close>

fun count_matches :: "string \<Rightarrow> string \<Rightarrow> nat" where
  "count_matches pat [] = 0"
| "count_matches pat (c # cs) =
     (if prefix pat (c # cs) then Suc (count_matches pat (drop (length pat - 1) cs))
      else count_matches pat cs)"

section \<open>The stream normalizer: \<open>standardizeStream\<close>\<close>

text \<open>
  A vendor chunk is either in the OpenAI form \<open>{choices: [{delta: {content,
  reasoning_content}}]}\<close> or in the Gemini form \<open>{text}\<close>. A missing \<open>choices\<close>
  array and a missing \<open>delta\<close> object are \<open>None\<close>.
\<close>

record delta =
  content :: jsval
  reasoning_content :: jsval

record choice =
  delta :: "delta option"

record chunk =
  choices :: "choice list option"
  chunk_text :: jsval

text \<open>
  The canonical events: \<open>{type: 'content_block_delta', delta: {text}}\<close> and
  \<open>{type: 'reasoning_content', reasoning_content}\<close>. Each carries the field value the
  code copies into it.
\<close>

datatype event = ContentDelta jsval | ReasoningDelta jsval

fun event_text :: "event \<Rightarrow> jsval" where
  "event_text (ContentDelta v) = v"
| "event_text (ReasoningDelta v) = v"

text \<open>
  Line 203. \<open>+\<close> binds tighter than \<open>||\<close>, so the expression is
  \<open>(response + content) || ('' + reasoning_content) || ''\<close>, and a string is truthy
  when it is not empty.
\<close>

definition textsofar :: "string \<Rightarrow> delta \<Rightarrow> string" where
  "textsofar response d =
     (if response @ to_string (content d) \<noteq> [] then response @ to_string (content d)
      else if [] @ to_string (reasoning_content d) \<noteq> [] then [] @ to_string (reasoning_content d)
      else [])"

definition thinkOpens :: "string \<Rightarrow> delta \<Rightarrow> nat" where
  "thinkOpens response d = count_matches ''<think>'' (textsofar response d)"

definition thinkCloses :: "string \<Rightarrow> delta \<Rightarrow> nat" where
  "thinkCloses response d = count_matches ''</think>'' (textsofar response d)"

definition isInThinkTag :: "string \<Rightarrow> delta \<Rightarrow> bool" where
  "isInThinkTag response d = (thinkOpens response d > thinkCloses response d)"

definition originalThinkCloses :: "string \<Rightarrow> nat" where
  "originalThinkCloses response = count_matches ''</think>'' response"

definition isnotedgecase :: "string \<Rightarrow> delta \<Rightarrow> bool" where
  "isnotedgecase response d = (originalThinkCloses response = thinkCloses response d)"

text \<open>
  The message of the \<open>TypeError\<close> raised by reading a property of \<open>undefined\<close>
  (the wording is the engine's).
\<close>

definition type_error_reading :: "string \<Rightarrow> string" where
  "type_error_reading prop =
     ''Cannot read properties of undefined (reading '' @ [CHR 0x27] @ prop @ [CHR 0x27] @ '')''"

text \<open>
  The body of the \<open>for await\<close> loop (lines 202 to 243) for one chunk: from the
  accumulator \<open>response\<close> to either the message of an exception, or the events yielded
  for the chunk, in order, and the accumulator afterwards.
\<close>

definition standardize_chunk :: "string \<Rightarrow> chunk \<Rightarrow> string + (event list \<times> string)" where
  "standardize_chunk response c =
     (case choices c of
        Some (ch # rest) \<Rightarrow>
          (case delta ch of
             None \<Rightarrow> Inl (type_error_reading ''content'')
           | Some d \<Rightarrow>
               if truthy (content d) \<and> \<not> isInThinkTag response d \<and> isnotedgecase response d then
                 Inr ([ContentDelta (content d)], response @ to_string (content d))
               else if truthy (reasoning_content d) \<or> isInThinkTag response d
                       \<or> \<not> isnotedgecase response d then
                 (let (ev1, response1) =
                        (if \<not> truthy (reasoning_content d)
                         then ([ReasoningDelta (content d)], response @ to_string (content d))
                         else ([], response));
                      (ev2, response2) =
                        (if truthy (reasoning_content d)
                         then ([ReasoningDelta (reasoning_content d)],
                               response1 @ to_string (reasoning_content d))
                         else ([], response1))
                  in Inr (ev1 @ ev2, response2))
               else Inr ([], response))
      | _ \<Rightarrow>
          if truthy (chunk_text c) then Inr ([ContentDelta (chunk_text c)], response)
          else Inr ([], response))"

text \<open>
  The vendor stream is a finite sequence of items: a chunk, or the source iterator
  throwing. The normalized stream is the list of events yielded up to the end of the
  source or up to the exception, which the generator rethrows as
  \<open>Stream Processing Error: ...\<close>.
\<close>

datatype 'a stream_item = Item 'a | Raise string

fun standardizeStream_from :: "string \<Rightarrow> chunk stream_item list \<Rightarrow> event list \<times> string option" where
  "standardizeStream_from response [] = ([], None)"
| "standardizeStream_from response (Raise m # rest) =
     ([], Some (''Stream Processing Error: '' @ m))"
| "standardizeStream_from response (Item c # rest) =
     (case standardize_chunk response c of
        Inl m \<Rightarrow> ([], Some (''Stream Processing Error: '' @ m))
      | Inr (evs, response') \<Rightarrow>
          (let (es, r) = standardizeStream_from response' rest in (evs @ es, r)))"

text \<open>A fresh normalizer starts from the empty accumulator (line 196).\<close>

definition standardizeStream :: "chunk stream_item list \<Rightarrow> event list \<times> string option" where
  "standardizeStream stream = standardizeStream_from [] stream"

text \<open>A chunk \<open>{choices: [{delta: {content: s}}]}\<close>.\<close>

definition content_chunk :: "string \<Rightarrow> chunk" where
  "content_chunk s =
     \<lparr>choices = Some [\<lparr>delta = Some \<lparr>content = JStr s, reasoning_content = JUndefined\<rparr>\<rparr>],
      chunk_text = JUndefined\<rparr>"

text \<open>A chunk \<open>{choices: [{delta: {content: s, reasoning_content: r}}]}\<close>.\<close>

definition both_chunk :: "string \<Rightarrow> string \<Rightarrow> chunk" where
  "both_chunk s r =
     \<lparr>choices = Some [\<lparr>delta = Some \<lparr>content = JStr s, reasoning_content = JStr r\<rparr>\<rparr>],
      chunk_text = JUndefined\<rparr>"

text \<open>A chunk \<open>{choices: [{delta: {}}]}\<close>: a delta with neither field.\<close>

definition empty_delta_chunk :: chunk where
  "empty_delta_chunk =
     \<lparr>choices = Some [\<lparr>delta = Some \<lparr>content = JUndefined, reasoning_content = JUndefined\<rparr>\<rparr>],
      chunk_text = JUndefined\<rparr>"

section \<open>The aggregator line parser: \<open>asyncIteratorFromReader\<close>\<close>

text \<open>
  The decoded text is a list of characters, each a code point below 256 (a character of
  the text, not a byte of its UTF-8 encoding). \<open>trim()\<close> removes the ECMAScript white
  space and line terminators from both ends; those below 256 are TAB, LF, VT, FF, CR, SP
  and NBSP.
\<close>

definition newline :: char where
  "newline = CHR 0x0A"

definition is_space :: "char \<Rightarrow> bool" where
  "is_space c = (c \<in> set [CHR 0x09, CHR 0x0A, CHR 0x0B, CHR 0x0C, CHR 0x0D, CHR 0x20, CHR 0xA0])"

definition trim :: "string \<Rightarrow> string" where
  "trim s = rev (dropWhile is_space (rev (dropWhile is_space s)))"

text \<open>\<open>s.indexOf(c)\<close>; the result \<open>-1\<close> is \<open>None\<close>.\<close>

fun indexOf :: "char \<Rightarrow> string \<Rightarrow> nat option" where
  "indexOf c [] = None"
| "indexOf c (x # xs) = (if x = c then Some 0 else map_option Suc (indexOf c xs))"

definition startsWith :: "string \<Rightarrow> string \<Rightarrow> bool" where
  "startsWith s p = prefix p s"

text \<open>
  The reader of the response body. \<open>pending\<close> is what the calls of \<open>read()\<close> will
  return, in order: a value (here already decoded, as \<open>decoder.decode(value, {stream:
  true})\<close> returns it) or a rejection; after the last one \<open>read()\<close> returns
  \<open>{done: true}\<close>. \<open>cancel_calls\<close> counts the calls of \<open>cancel()\<close>.
\<close>

datatype read_result = ReadValue string | ReadFails string

record reader =
  pending :: "read_result list"
  cancel_calls :: nat

text \<open>
  An async generator object is suspended at its start (no code of the body has run),
  suspended at the \<open>yield\<close> of line 279, or completed. The state of the body at the
  \<open>yield\<close> is the variable \<open>buffer\<close> and the reader.
\<close>

datatype phase = SuspendedStart | SuspendedYield | Completed

record generator =
  phase :: phase
  buffer :: string
  rd :: reader

text \<open>What the generator answers to a request: a value, done, or an exception.\<close>

datatype 'j iter_result = IterValue 'j | IterDone | IterThrow string


text \<open>
  The body, run up to its next \<open>yield\<close> or its end. \<open>read_loop\<close> is the outer
  \<open>while (true)\<close> at the call of \<open>reader.read()\<close> (line 261), \<open>line_loop\<close> the
  inner one at \<open>buffer.indexOf('\n')\<close> (line 269); \<open>n\<close> is the count of
  \<open>cancel()\<close> calls so far. Every way out of the \<open>try\<close> block runs the
  \<open>finally\<close> block, which calls \<open>reader.cancel()\<close>. \<open>JSON.parse\<close> is the
  parameter \<open>parse\<close>, \<open>None\<close> where it throws; the \<open>catch\<close> of line 280 then
  goes on with the next line.
\<close>

function read_loop :: "(string \<Rightarrow> 'j option) \<Rightarrow> string \<Rightarrow> read_result list \<Rightarrow> nat
      \<Rightarrow> 'j iter_result \<times> generator"
  and line_loop :: "(string \<Rightarrow> 'j option) \<Rightarrow> string \<Rightarrow> read_result list \<Rightarrow> nat
      \<Rightarrow> 'j iter_result \<times> generator" where
  "read_loop parse buf [] n =
     (IterDone, \<lparr>phase = Completed, buffer = buf, rd = \<lparr>pending = [], cancel_calls = Suc n\<rparr>\<rparr>)"
| "read_loop parse buf (ReadFails e # rs) n =
     (IterThrow e, \<lparr>phase = Completed, buffer = buf, rd = \<lparr>pending = rs, cancel_calls = Suc n\<rparr>\<rparr>)"
| "read_loop parse buf (ReadValue v # rs) n = line_loop parse (buf @ v) rs n"
| "line_loop parse buf rs n =
     (case indexOf newline buf of
        None \<Rightarrow> read_loop parse buf rs n
      | Some lineEnd \<Rightarrow>
          (let line = trim (take lineEnd buf);
               buf' = drop (lineEnd + 1) buf
           in if startsWith line ''data: '' then
                (let data = drop 6 line
                 in if data = ''[DONE]'' then
                      (IterDone, \<lparr>phase = Completed, buffer = buf',
                                  rd = \<lparr>pending = rs, cancel_calls = Suc n\<rparr>\<rparr>)
                    else
                      (case parse data of
                         Some parsed \<Rightarrow>
                           (IterValue parsed, \<lparr>phase = SuspendedYield, buffer = buf',
                                               rd = \<lparr>pending = rs, cancel_calls = n\<rparr>\<rparr>)
                       | None \<Rightarrow> line_loop parse buf' rs n))
              else line_loop parse buf' rs n))"
  by pat_completeness auto
termination
proof (relation "measures
    [\<lambda>x. case x of Inl (p, b, rs, n) \<Rightarrow> length rs | Inr (p, b, rs, n) \<Rightarrow> length rs,
     \<lambda>x. case x of Inl (p, b, rs, n) \<Rightarrow> 0 | Inr (p, b, rs, n) \<Rightarrow> 1,
     \<lambda>x. case x of Inl (p, b, rs, n) \<Rightarrow> length b | Inr (p, b, rs, n) \<Rightarrow> length b]",
    goal_cases)
  case 1
  show ?case by simp
next
  case 2
  then show ?case by simp
next
  case 3
  then show ?case by simp
next
  case (4 parse buf rs n lineEnd)
  then show ?case by (cases buf) auto
next
  case (5 parse buf rs n lineEnd)
  then show ?case by (cases buf) auto
qed

declare line_loop.simps [simp del]

text \<open>Calling the generator function creates the generator; nothing of the body runs.\<close>

definition asyncIteratorFromReader :: "reader \<Rightarrow> generator" where
  "asyncIteratorFromReader r = \<lparr>phase = SuspendedStart, buffer = [], rd = r\<rparr>"

text \<open>
  \<open>next()\<close>: from the start the body runs from line 256, with \<open>buffer = ''\<close>; from
  the \<open>yield\<close> it goes on with the inner loop; a completed generator answers done.
\<close>

definition gen_next :: "(string \<Rightarrow> 'j option) \<Rightarrow> generator \<Rightarrow> 'j iter_result \<times> generator" where
  "gen_next parse g =
     (case phase g of
        SuspendedStart \<Rightarrow> read_loop parse [] (pending (rd g)) (cancel_calls (rd g))
      | SuspendedYield \<Rightarrow> line_loop parse (buffer g) (pending (rd g)) (cancel_calls (rd g))
      | Completed \<Rightarrow> (IterDone, g))"

text \<open>
  \<open>return()\<close>, which \<open>for await\<close> calls when its body breaks, returns or throws: at
  the \<open>yield\<close> it leaves the \<open>try\<close> block through \<open>finally\<close>; at the start it
  completes the generator without running any of the body.
\<close>

definition gen_return :: "generator \<Rightarrow> 'j iter_result \<times> generator" where
  "gen_return g =
     (case phase g of
        SuspendedStart \<Rightarrow> (IterDone, g\<lparr>phase := Completed\<rparr>)
      | SuspendedYield \<Rightarrow>
          (IterDone, g\<lparr>phase := Completed,
                       rd := (rd g)\<lparr>cancel_calls := Suc (cancel_calls (rd g))\<rparr>\<rparr>)
      | Completed \<Rightarrow> (IterDone, g))"

text \<open>
  \<open>throw(e)\<close>: at the \<open>yield\<close> the exception is raised inside the \<open>try\<close> of
  line 277, whose \<open>catch\<close> logs it, and the inner loop goes on.
\<close>

definition gen_throw :: "(string \<Rightarrow> 'j option) \<Rightarrow> string \<Rightarrow> generator \<Rightarrow> 'j iter_result \<times> generator" where
  "gen_throw parse e g =
     (case phase g of
        SuspendedStart \<Rightarrow> (IterThrow e, g\<lparr>phase := Completed\<rparr>)
      | SuspendedYield \<Rightarrow> line_loop parse (buffer g) (pending (rd g)) (cancel_calls (rd g))
      | Completed \<Rightarrow> (IterThrow e, g))"

text \<open>A consumer is the sequence of its requests; \<open>drive\<close> collects the answers.\<close>

datatype request = Next | Return | Throw string

definition answer :: "(string \<Rightarrow> 'j option) \<Rightarrow> request \<Rightarrow> generator \<Rightarrow> 'j iter_result \<times> generator" where
  "answer parse q g =
     (case q of Next \<Rightarrow> gen_next parse g
              | Return \<Rightarrow> gen_return g
              | Throw e \<Rightarrow> gen_throw parse e g)"

fun drive :: "(string \<Rightarrow> 'j option) \<Rightarrow> request list \<Rightarrow> generator \<Rightarrow> 'j iter_result list \<times> generator" where
  "drive parse [] g = ([], g)"
| "drive parse (q # qs) g =
     (let (r, g') = answer parse q g;
          (rs, g'') = drive parse qs g'
      in (r # rs, g''))"

subsection \<open>The wire protocol as the specification describes it\<close>

text \<open>The lines of a text that a newline ends, without the newline.\<close>

fun complete_lines :: "string \<Rightarrow> string list" where
  "complete_lines [] = []"
| "complete_lines (c # cs) =
     (if c = newline then [] # complete_lines cs
      else (case complete_lines cs of [] \<Rightarrow> [] | l # ls \<Rightarrow> (c # l) # ls))"

text \<open>
  The values of a list of lines: stop at the first line \<open>data: [DONE]\<close>, keep the lines
  prefixed \<open>data: \<close>, parse what follows the prefix, and skip what does not parse.
\<close>

definition values_of_lines :: "(string \<Rightarrow> 'j option) \<Rightarrow> string list \<Rightarrow> 'j list" where
  "values_of_lines parse ls =
     List.map_filter (\<lambda>l. parse (drop 6 l))
       (filter (\<lambda>l. prefix ''data: '' l) (takeWhile (\<lambda>l. l \<noteq> ''data: [DONE]'') ls))"

text \<open>The values as the claim words them: of the newline-terminated lines as they are.\<close>

definition claimed_values :: "(string \<Rightarrow> 'j option) \<Rightarrow> string \<Rightarrow> 'j list" where
  "claimed_values parse input = values_of_lines parse (complete_lines input)"

text \<open>The values of the newline-terminated lines, each trimmed first.\<close>

definition trimmed_values :: "(string \<Rightarrow> 'j option) \<Rightarrow> string \<Rightarrow> 'j list" where
  "trimmed_values parse input = values_of_lines parse (map trim (complete_lines input))"

text \<open>
  Values of \<open>JSON.parse\<close>, and \<open>JSON.parse\<close> on the payload \<open>{"text":"a"}\<close>;
  the example that uses it consults it on no other string.
\<close>

datatype json = JString string | JObject "(string \<times> json) list"

definition sample_parse :: "string \<Rightarrow> json option" where
  \<open>sample_parse s =
     (if s = ''{"text":"a"}'' then Some (JObject [(''text'', JString ''a'')]) else None)\<close>

subsection \<open>What a generator has still to read and to yield\<close>

fun is_value :: "read_result \<Rightarrow> bool" where
  "is_value (ReadValue v) = True"
| "is_value (ReadFails e) = False"

fun text_of :: "read_result list \<Rightarrow> string" where
  "text_of [] = []"
| "text_of (ReadValue v # rs) = v @ text_of rs"
| "text_of (ReadFails e # rs) = text_of rs"

definition expected :: "(string \<Rightarrow> 'j option) \<Rightarrow> generator \<Rightarrow> 'j list" where
  "expected parse g =
     (case phase g of
        SuspendedStart \<Rightarrow> trimmed_values parse (text_of (pending (rd g)))
      | SuspendedYield \<Rightarrow> trimmed_values parse (buffer g @ text_of (pending (rd g)))
      | Completed \<Rightarrow> [])"

text \<open>
  One run of the body against the text \<open>T\<close> that was left: it answers the first value
  of \<open>T\<close> and stops at the \<open>yield\<close> with the rest left, or \<open>T\<close> has no value
  and the generator completes.
\<close>

definition step_ok :: "(string \<Rightarrow> 'j option) \<Rightarrow> string \<Rightarrow> 'j iter_result \<times> generator \<Rightarrow> bool" where
  "step_ok parse T res =
     (list_all is_value (pending (rd (snd res))) \<and>
      (case trimmed_values parse T of
         [] \<Rightarrow> fst res = IterDone \<and> phase (snd res) = Completed
       | x # xs \<Rightarrow> fst res = IterValue x \<and> phase (snd res) = SuspendedYield
                  \<and> trimmed_values parse (buffer (snd res) @ text_of (pending (rd (snd res)))) = xs))"



section \<open>The vendor call adapters\<close>

text \<open>
  A chat message \<open>{role, content, image}\<close>. The \<open>image\<close> property may be missing
  (\<open>undefined\<close>), \<open>null\<close>, or an array of \<open>{media_type, url}\<close>. The argument
  \<open>temperature\<close> of an adapter is of any type \<open>'t\<close>: the adapters only pass it on
  (it is the value after the default \<open>0.7\<close> has been applied). What an adapter calls
  outside the file (the SDK, \<open>fetch\<close>) is a parameter of its model, which gives the
  message of the exception or the result.
\<close>

record image_data =
  media_type :: string
  url :: string

datatype image_field = ImageUndefined | ImageNull | ImageArray "image_data list"

record chat_message =
  msg_role :: string
  msg_content :: string
  msg_image :: image_field

record system_block =
  block_text :: string

text \<open>\<open>xs.join(sep)\<close>.\<close>

fun join :: "string \<Rightarrow> string list \<Rightarrow> string" where
  "join sep [] = []"
| "join sep [x] = x"
| "join sep (x # y # ys) = x @ sep @ join sep (y # ys)"

text \<open>The decimal digits of a number, as a template literal prints it.\<close>

function show_nat :: "nat \<Rightarrow> string" where
  "show_nat n =
     (if n < 10 then [''0123456789'' ! n]
      else show_nat (n div 10) @ [''0123456789'' ! (n mod 10)])"
  by pat_completeness auto
termination
  by (relation "measure id") auto

declare show_nat.simps [simp del]

text \<open>
  A promise that has settled: fulfilled with a value, or rejected at a moment with a
  message. The moments order the rejections in time. Moment \<open>0\<close> is the call that
  made the promise: an \<open>async\<close> function that throws before its first \<open>await\<close>
  returns a promise that is rejected already. What is rejected later has a later moment.
\<close>

datatype 'a promise = Fulfilled 'a | Rejected nat string

text \<open>
  The promise of an \<open>async\<close> function whose body is \<open>f (await p)\<close> and catches
  nothing: the rejection of \<open>p\<close> reaches it after the \<open>await\<close>, so later.
\<close>

fun awaited :: "'a promise \<Rightarrow> ('a \<Rightarrow> 'b) \<Rightarrow> 'b promise" where
  "awaited (Fulfilled v) f = Fulfilled (f v)"
| "awaited (Rejected t m) f = Rejected (Suc t) m"

text \<open>
  \<open>Promise.all\<close> rejects with the rejection that settles first, at its moment: the one
  of the least moment, and among those of one moment the first of the array (the
  reactions to promises that are rejected already run in the order of the array). With
  no rejection it is fulfilled with the values, in the order of the array.
\<close>

fun first_rejection :: "'a promise list \<Rightarrow> (nat \<times> string) option" where
  "first_rejection [] = None"
| "first_rejection (Fulfilled v # ps) = first_rejection ps"
| "first_rejection (Rejected t m # ps) =
     (case first_rejection ps of
        None \<Rightarrow> Some (t, m)
      | Some (t', m') \<Rightarrow> if t' < t then Some (t', m') else Some (t, m))"

fun fulfilled :: "'a promise list \<Rightarrow> 'a list" where
  "fulfilled [] = []"
| "fulfilled (Fulfilled v # ps) = v # fulfilled ps"
| "fulfilled (Rejected t m # ps) = fulfilled ps"

definition promise_all :: "'a promise list \<Rightarrow> 'a list promise" where
  "promise_all ps =
     (case first_rejection ps of
        Some (t, m) \<Rightarrow> Rejected t m
      | None \<Rightarrow> Fulfilled (fulfilled ps))"

subsection \<open>\<open>formatMessages\<close> and \<open>makeGrokApiCall\<close>\<close>

datatype oa_part = ImageUrlPart string string | TextPart string

datatype oa_content = ContentParts "oa_part list" | ContentText string

record oa_message =
  oa_role :: string
  oa_content :: oa_content

text \<open>\<open>msg.image && msg.image.length > 0\<close>: an array is truthy, also when empty.\<close>

fun has_images :: "chat_message \<Rightarrow> bool" where
  "has_images msg =
     (case msg_image msg of ImageArray imgs \<Rightarrow> length imgs > 0 | _ \<Rightarrow> False)"

fun images_of :: "chat_message \<Rightarrow> image_data list" where
  "images_of msg = (case msg_image msg of ImageArray imgs \<Rightarrow> imgs | _ \<Rightarrow> [])"

definition formatMessages :: "chat_message list \<Rightarrow> system_block list \<Rightarrow> oa_message list" where
  "formatMessages chatContext systemMessage =
     (let fullSystemMessage = join [newline, newline] (map block_text systemMessage)
      in \<lparr>oa_role = ''system'', oa_content = ContentText fullSystemMessage\<rparr> #
         map (\<lambda>msg.
                if has_images msg then
                  \<lparr>oa_role = msg_role msg,
                   oa_content = ContentParts
                     (map (\<lambda>img. ImageUrlPart (url img) ''high'') (images_of msg)
                      @ [TextPart (msg_content msg)])\<rparr>
                else \<lparr>oa_role = msg_role msg, oa_content = ContentText (msg_content msg)\<rparr>)
             chatContext)"

text \<open>
  The options of an SDK client, and the request of \<open>chat.completions.create\<close>. The
  properties \<open>max_completion_tokens\<close> and \<open>temperature\<close> are \<open>None\<close> when the
  object literal does not have them.
\<close>

record sdk_client =
  api_key :: string
  base_url :: "string option"

record 't oa_request =
  req_model :: string
  req_messages :: "oa_message list"
  req_stream :: bool
  req_max_completion_tokens :: "int option"
  req_temperature :: "'t option"

text \<open>The object literal of lines 70 to 74, from lines 64 to 68.\<close>

definition makeGrokApiCall_request ::
  "chat_message list \<Rightarrow> system_block list \<Rightarrow> int \<Rightarrow> int \<Rightarrow> 't \<Rightarrow> 't oa_request" where
  "makeGrokApiCall_request chatContext systemMessage model maxTokens temperature =
     (let messages = formatMessages chatContext systemMessage;
          hasImage = list_ex has_images chatContext;
          modelName = (if hasImage then ''grok-2-vision-1212'' else ''grok-2-1212'')
      in \<lparr>req_model = modelName, req_messages = messages, req_stream = True,
          req_max_completion_tokens = None, req_temperature = None\<rparr>)"

text \<open>
  \<open>makeGrokApiCall\<close>. The SDK call is the parameter \<open>create\<close>: the message of the
  exception it throws, or the vendor stream. The result is the message of the rejection,
  or the pair of the normalized stream and the model name.
\<close>

definition makeGrokApiCall ::
  "(sdk_client \<Rightarrow> 't oa_request \<Rightarrow> string + chunk stream_item list) \<Rightarrow> string
     \<Rightarrow> chat_message list \<Rightarrow> system_block list \<Rightarrow> int \<Rightarrow> int \<Rightarrow> 't
     \<Rightarrow> string + ((event list \<times> string option) \<times> string)" where
  "makeGrokApiCall create apiKey chatContext systemMessage model maxTokens temperature =
     (let openai = \<lparr>api_key = apiKey, base_url = Some ''https://api.x.ai/v1''\<rparr>;
          request = makeGrokApiCall_request chatContext systemMessage model maxTokens temperature
      in case create openai request of
           Inl message \<Rightarrow> Inl (''Grok API Error: '' @ message)
         | Inr stream \<Rightarrow> Inr (standardizeStream stream, req_model request))"

subsection \<open>\<open>convertToBase64\<close> and \<open>makeClaudeApiCall\<close>\<close>

record 'b http_response =
  resp_ok :: bool
  resp_status :: nat
  resp_body :: 'b

text \<open>
  \<open>convertToBase64\<close>. \<open>fetch\<close> is the parameter \<open>fetch\<close>: the moment at which
  its promise settles, and the message of its rejection or the response; \<open>base64\<close> is
  \<open>Buffer.from(data).toString('base64')\<close>. Whatever is thrown in the \<open>try\<close> block
  is thrown after \<open>await fetch(imageUrl)\<close>, and the \<open>catch\<close> throws it again with
  the prefix.
\<close>

definition convertToBase64 ::
  "(string \<Rightarrow> nat \<times> (string + 'b http_response)) \<Rightarrow> ('b \<Rightarrow> string) \<Rightarrow> string \<Rightarrow> string promise" where
  "convertToBase64 fetch base64 imageUrl =
     (let (t, outcome) = fetch imageUrl
      in case (case outcome of
                 Inl message \<Rightarrow> Inl message
               | Inr response \<Rightarrow>
                   if \<not> resp_ok response
                   then Inl (''HTTP error! status: '' @ show_nat (resp_status response))
                   else Inr (base64 (resp_body response))) of
           Inl message \<Rightarrow> Rejected (Suc t) (''Base64 Conversion Error: '' @ message)
         | Inr data \<Rightarrow> Fulfilled data)"

datatype claude_block = ImageBlock string string | TextBlock string

datatype claude_content = ContentBlocks "claude_block list" | ContentString string

record claude_message =
  cl_role :: string
  cl_content :: claude_content

fun is_plain :: "claude_message promise \<Rightarrow> bool" where
  "is_plain (Fulfilled m) = (case cl_content m of ContentString s \<Rightarrow> True | _ \<Rightarrow> False)"
| "is_plain (Rejected t e) = False"

text \<open>
  The \<open>async\<close> callback of lines 12 to 28 for one message. \<open>msg.image !== null\<close>
  holds for \<open>undefined\<close>, and \<open>msg.image.map\<close> then throws a \<open>TypeError\<close> before
  the first \<open>await\<close>. For an array, the callback of each image awaits
  \<open>convertToBase64\<close>, and the callback of the message awaits the \<open>Promise.all\<close>
  of the images. \<open>ImageBlock m d\<close> is \<open>{type: "image", source: {type: "base64",
  media_type: m, data: d}}\<close>.
\<close>

definition claude_message_of :: "(string \<Rightarrow> string promise) \<Rightarrow> chat_message \<Rightarrow> claude_message promise" where
  "claude_message_of convert msg =
     (case msg_image msg of
        ImageNull \<Rightarrow>
          Fulfilled \<lparr>cl_role = msg_role msg, cl_content = ContentString (msg_content msg)\<rparr>
      | ImageUndefined \<Rightarrow> Rejected 0 (type_error_reading ''map'')
      | ImageArray imgs \<Rightarrow>
          awaited
            (promise_all
               (map (\<lambda>img. awaited (convert (url img)) (\<lambda>data. ImageBlock (media_type img) data))
                    imgs))
            (\<lambda>blocks. \<lparr>cl_role = msg_role msg,
                        cl_content = ContentBlocks (blocks @ [TextBlock (msg_content msg)])\<rparr>))"

text \<open>
  The request of \<open>anthropic.beta.promptCaching.messages.create\<close>; \<open>cl_thinking\<close> is
  the \<open>budget_tokens\<close> of \<open>thinking: {type: "enabled", budget_tokens}\<close>.
\<close>

record ('s, 't) claude_request =
  cl_model :: string
  cl_max_tokens :: int
  cl_temperature :: 't
  cl_messages :: "claude_message list"
  cl_stream :: bool
  cl_system :: 's
  cl_thinking :: "nat option"

definition makeClaudeApiCall ::
  "(sdk_client \<Rightarrow> ('s, 't) claude_request \<Rightarrow> string + 'r)
     \<Rightarrow> (string \<Rightarrow> nat \<times> (string + 'b http_response)) \<Rightarrow> ('b \<Rightarrow> string)
     \<Rightarrow> string \<Rightarrow> chat_message list \<Rightarrow> 's \<Rightarrow> int \<Rightarrow> int \<Rightarrow> 't \<Rightarrow> string + 'r" where
  "makeClaudeApiCall create fetch base64 apiKey chatContext systemMessage model maxTokens temperature =
     (case (let anthropic = \<lparr>api_key = apiKey, base_url = None\<rparr>
            in case promise_all (map (claude_message_of (convertToBase64 fetch base64)) chatContext) of
                 Rejected t message \<Rightarrow> Inl message
               | Fulfilled messages \<Rightarrow>
                   (let modelName =
                          (if model > 0
                           then (if model = 1 then ''claude-3-7-sonnet-20250219''
                                 else ''claude-3-5-haiku-20241022'')
                           else (if model = -1 then ''claude-3-7-sonnet-20250219''
                                 else ''claude-3-7-sonnet-20250219''));
                        isReasoning = (if model < 0 then True else False)
                    in create anthropic
                         \<lparr>cl_model = modelName, cl_max_tokens = maxTokens,
                          cl_temperature = temperature, cl_messages = messages,
                          cl_stream = True, cl_system = systemMessage,
                          cl_thinking = (if isReasoning then Some 16000 else None)\<rparr>)) of
        Inl message \<Rightarrow> Inl (''Claude API Error: '' @ message)
      | Inr stream \<Rightarrow> Inr stream)"

subsection \<open>\<open>makeOpenRouterApiCall\<close>\<close>

record or_model =
  model_name :: string
  model_type :: int

record plain_message =
  pm_role :: string
  pm_content :: string

record 't or_request =
  or_authorization :: string
  or_model :: string
  or_messages :: "plain_message list"
  or_temperature :: 't
  or_stream :: bool
  or_include_reasoning :: bool

definition makeOpenRouterApiCall_request ::
  "string \<Rightarrow> chat_message list \<Rightarrow> string \<Rightarrow> or_model \<Rightarrow> 't \<Rightarrow> 't or_request" where
  "makeOpenRouterApiCall_request apiKey chatContext systemMessage model temperature =
     (let messages = \<lparr>pm_role = ''system'', pm_content = systemMessage\<rparr> #
            map (\<lambda>msg. \<lparr>pm_role = msg_role msg, pm_content = msg_content msg\<rparr>) chatContext;
          isReasoning = (if model_type model < 0 then True else False)
      in \<lparr>or_authorization = ''Bearer '' @ apiKey, or_model = model_name model,
          or_messages = messages, or_temperature = temperature, or_stream = True,
          or_include_reasoning = isReasoning\<rparr>)"

text \<open>
  What the call does besides returning: the console lines, the request, and the call of
  \<open>getReader()\<close>, in order.
\<close>

datatype effect = ConsoleLog string | ConsoleError string | Fetch | GetReader

text \<open>
  The stream the call returns: \<open>standardizeStream\<close> applied to the generator; nothing
  of either has run.
\<close>

datatype lazy_stream = StandardizedOver generator

definition makeOpenRouterApiCall ::
  "('t or_request \<Rightarrow> string + reader option http_response) \<Rightarrow> string \<Rightarrow> chat_message list
     \<Rightarrow> string \<Rightarrow> or_model \<Rightarrow> int \<Rightarrow> 't \<Rightarrow> (string + (lazy_stream \<times> string)) \<times> effect list" where
  "makeOpenRouterApiCall fetch apiKey chatContext systemMessage model maxTokens temperature =
     (let request = makeOpenRouterApiCall_request apiKey chatContext systemMessage model temperature;
          effects0 = [ConsoleLog ''Making OpenRouter API call with model: [object Object]'', Fetch];
          (outcome, effects) =
            (case fetch request of
               Inl message \<Rightarrow> (Inl message, effects0)
             | Inr response \<Rightarrow>
                 if \<not> resp_ok response then
                   (let message = ''OpenRouter API call failed with status ''
                                    @ show_nat (resp_status response)
                    in (Inl message, effects0 @ [ConsoleError message]))
                 else
                   (case resp_body response of
                      None \<Rightarrow> (Inl ''Response body is not readable'', effects0)
                    | Some reader \<Rightarrow>
                        (Inr (StandardizedOver (asyncIteratorFromReader reader), model_name model),
                         effects0 @ [GetReader,
                           ConsoleLog ''OpenRouter API call successful, returning adapted stream''])))
      in (case outcome of
            Inl message \<Rightarrow> Inl (''OpenRouter API Error: '' @ message)
          | Inr result \<Rightarrow> Inr result,
          effects))"

text \<open>Sample data for the examples.\<close>

definition user_message :: "image_field \<Rightarrow> chat_message" where
  "user_message img = \<lparr>msg_role = ''user'', msg_content = ''hello'', msg_image = img\<rparr>"

section \<open>Properties of the normalizer\<close>

lemmas normalizer_defs =
  standardize_chunk_def textsofar_def thinkOpens_def thinkCloses_def isInThinkTag_def
  originalThinkCloses_def isnotedgecase_def

lemma count_think_simps:
  "count_matches ''<think>'' ''<think>'' = 1"
  "count_matches ''</think>'' ''<think>'' = 0"
  "count_matches ''<think>'' ''<think>secret'' = 1"
  "count_matches ''</think>'' ''<think>secret'' = 0"
  "count_matches ''<think>'' ''<think>secret</think>'' = 1"
  "count_matches ''</think>'' ''<think>secret</think>'' = 1"
  "count_matches ''<think>'' ''<think>secret</think>visible'' = 1"
  "count_matches ''</think>'' ''<think>secret</think>visible'' = 1"
  by simp_all

text \<open>
  C3. A fresh normalizer fed the content-only fragments \<open><think>\<close>, \<open>secret\<close>,
  \<open></think>\<close>, \<open>visible\<close> yields a reasoning event for each of the first three and
  a content event with text \<open>visible\<close> for the fourth, and ends without an error.
\<close>

theorem C3_think_secret_visible:
  "standardizeStream
     [Item (content_chunk ''<think>''), Item (content_chunk ''secret''),
      Item (content_chunk ''</think>''), Item (content_chunk ''visible'')]
   = ([ReasoningDelta (JStr ''<think>''), ReasoningDelta (JStr ''secret''),
       ReasoningDelta (JStr ''</think>''), ContentDelta (JStr ''visible'')], None)"
  by (simp add: standardizeStream_def normalizer_defs content_chunk_def count_think_simps)

text \<open>
  C1, as the claim states it, fails: a fresh normalizer given a chunk whose delta has
  content \<open>a\<close> and reasoning_content \<open>r\<close> yields the content event alone; the
  reasoning text is not emitted.
\<close>

theorem C1_counterexample:
  "standardize_chunk [] (both_chunk ''a'' ''r'') = Inr ([ContentDelta (JStr ''a'')], ''a'')
   \<and> ReasoningDelta (JStr ''r'') \<notin> set [ContentDelta (JStr ''a'')]"
  by (simp add: normalizer_defs both_chunk_def)

text \<open>
  C1, amended. For every chunk whose delta carries both a non-empty content and a
  non-empty reasoning_content, the normalizer yields exactly one event: the content event
  with the content text when, with the content text appended, no \<open><think>\<close> is open
  and no new \<open></think>\<close> has appeared (the reasoning text is dropped); otherwise the
  reasoning event with the reasoning text (the content text is dropped). The text of the
  event is appended to the accumulator.
\<close>

theorem C1_both_fields_one_event:
  assumes "choices c = Some (ch # rest)" and "delta ch = Some d"
    and "truthy (content d)" and "truthy (reasoning_content d)"
  shows "standardize_chunk response c =
    (if \<not> isInThinkTag response d \<and> isnotedgecase response d
     then Inr ([ContentDelta (content d)], response @ to_string (content d))
     else Inr ([ReasoningDelta (reasoning_content d)],
               response @ to_string (reasoning_content d)))"
  using assms by (simp add: standardize_chunk_def)

theorem C1_both_fields_one_event_witness:
  "truthy (JStr ''a'') \<and> truthy (JStr ''r'') \<and>
   standardize_chunk ''<think>'' (both_chunk ''a'' ''r'')
     = Inr ([ReasoningDelta (JStr ''r'')], ''<think>r'')"
proof -
  have "standardize_chunk ''<think>'' (both_chunk ''a'' ''r'') =
    (if \<not> isInThinkTag ''<think>'' \<lparr>content = JStr ''a'', reasoning_content = JStr ''r''\<rparr>
         \<and> isnotedgecase ''<think>'' \<lparr>content = JStr ''a'', reasoning_content = JStr ''r''\<rparr>
     then Inr ([ContentDelta (JStr ''a'')], ''<think>'' @ ''a'')
     else Inr ([ReasoningDelta (JStr ''r'')], ''<think>'' @ ''r''))"
    using C1_both_fields_one_event [of "both_chunk ''a'' ''r''"
        "\<lparr>delta = Some \<lparr>content = JStr ''a'', reasoning_content = JStr ''r''\<rparr>\<rparr>" "[]"
        "\<lparr>content = JStr ''a'', reasoning_content = JStr ''r''\<rparr>" "''<think>''"]
    by (simp add: both_chunk_def)
  then show ?thesis
    by (simp add: textsofar_def thinkOpens_def thinkCloses_def isInThinkTag_def
        originalThinkCloses_def isnotedgecase_def)
qed

text \<open>
  C2, as the claim states it, fails: inside an open \<open><think>\<close> block the fragment
  \<open>secret\<close> is emitted as a reasoning event and is appended to the accumulator all
  the same.
\<close>

theorem C2_counterexample:
  "standardize_chunk ''<think>'' (content_chunk ''secret'')
     = Inr ([ReasoningDelta (JStr ''secret'')], ''<think>secret'')
   \<and> ''<think>secret'' \<noteq> ''<think>''"
  by (simp add: normalizer_defs content_chunk_def)

text \<open>
  C2, amended. For every chunk in the \<open>choices[0].delta\<close> form that is processed
  without an exception and whose events carry strings, the accumulator afterwards is the
  accumulator before followed by the text of every event yielded for the chunk, in order,
  reasoning events and content events alike.
\<close>

theorem C2_accumulator_grows_by_every_event:
  assumes "standardize_chunk response c = Inr (evs, response')"
    and "choices c = Some (ch # rest)"
    and "list_all (\<lambda>e. is_str (event_text e)) evs"
  shows "response' = response @ concat (map (\<lambda>e. to_string (event_text e)) evs)"
  using assms
  by (auto simp: standardize_chunk_def split: option.splits if_splits)

theorem C2_accumulator_grows_by_every_event_witness:
  "standardize_chunk ''<think>'' (content_chunk ''secret'')
     = Inr ([ReasoningDelta (JStr ''secret'')], ''<think>secret'')
   \<and> list_all (\<lambda>e. is_str (event_text e)) [ReasoningDelta (JStr ''secret'')]
   \<and> ''<think>secret''
       = ''<think>'' @ concat (map (\<lambda>e. to_string (event_text e)) [ReasoningDelta (JStr ''secret'')])"
proof -
  have run: "standardize_chunk ''<think>'' (content_chunk ''secret'')
     = Inr ([ReasoningDelta (JStr ''secret'')], ''<think>secret'')"
    by (simp add: normalizer_defs content_chunk_def)
  have strs: "list_all (\<lambda>e. is_str (event_text e)) [ReasoningDelta (JStr ''secret'')]"
    by simp
  have "choices (content_chunk ''secret'')
     = Some (\<lparr>delta = Some \<lparr>content = JStr ''secret'', reasoning_content = JUndefined\<rparr>\<rparr> # [])"
    by (simp add: content_chunk_def)
  from C2_accumulator_grows_by_every_event [OF run this strs] run strs
  show ?thesis by blast
qed

text \<open>
  C4. The claim is that a chunk whose delta has neither field yields no event in any state
  of the normalizer. The code does not do so inside an open \<open><think>\<close> block: after
  the fragment \<open><think>\<close>, the chunk \<open>{choices: [{delta: {}}]}\<close> yields a
  reasoning event whose text is \<open>undefined\<close>, and the accumulator gets the nine
  characters \<open>undefined\<close>.
\<close>

theorem C4_empty_delta_inside_think_yields_event:
  "standardizeStream [Item (content_chunk ''<think>''), Item empty_delta_chunk]
     = ([ReasoningDelta (JStr ''<think>''), ReasoningDelta JUndefined], None)
   \<and> standardize_chunk ''<think>'' empty_delta_chunk
     = Inr ([ReasoningDelta JUndefined], ''<think>undefined'')"
  by (simp add: standardizeStream_def normalizer_defs content_chunk_def empty_delta_chunk_def)

text \<open>
  C5, as the claim states it, fails on text with tag markup: a fresh normalizer given the
  content-only chunk \<open><think>\<close> yields a reasoning event, not a content event.
\<close>

theorem C5_counterexample:
  "standardize_chunk [] (content_chunk ''<think>'')
     = Inr ([ReasoningDelta (JStr ''<think>'')], ''<think>'')
   \<and> ContentDelta (JStr ''<think>'') \<notin> set [ReasoningDelta (JStr ''<think>'')]"
  by (simp add: normalizer_defs content_chunk_def)

text \<open>
  C5, amended. For every chunk carrying a non-empty content field and no reasoning field,
  the normalizer yields exactly one event, and its text is the content field exactly. The
  event is a content event when, with the text appended to the accumulator, no
  \<open><think>\<close> is open and no new \<open></think>\<close> has appeared; otherwise it is a
  reasoning event.
\<close>

theorem C5_content_only_one_event_exact_text:
  assumes "choices c = Some (ch # rest)" and "delta ch = Some d"
    and "truthy (content d)" and "\<not> truthy (reasoning_content d)"
  shows "standardize_chunk response c =
    Inr ([if \<not> isInThinkTag response d \<and> isnotedgecase response d
          then ContentDelta (content d) else ReasoningDelta (content d)],
         response @ to_string (content d))"
  using assms by (simp add: standardize_chunk_def)

theorem C5_content_only_one_event_exact_text_witness:
  "truthy (JStr ''visible'') \<and> \<not> truthy JUndefined \<and>
   standardize_chunk [] (content_chunk ''visible'')
     = Inr ([ContentDelta (JStr ''visible'')], ''visible'')"
proof -
  have "standardize_chunk [] (content_chunk ''visible'') =
    Inr ([if \<not> isInThinkTag [] \<lparr>content = JStr ''visible'', reasoning_content = JUndefined\<rparr>
             \<and> isnotedgecase [] \<lparr>content = JStr ''visible'', reasoning_content = JUndefined\<rparr>
          then ContentDelta (JStr ''visible'') else ReasoningDelta (JStr ''visible'')],
         [] @ ''visible'')"
    using C5_content_only_one_event_exact_text [of "content_chunk ''visible''"
        "\<lparr>delta = Some \<lparr>content = JStr ''visible'', reasoning_content = JUndefined\<rparr>\<rparr>" "[]"
        "\<lparr>content = JStr ''visible'', reasoning_content = JUndefined\<rparr>" "[]"]
    by (simp add: content_chunk_def)
  then show ?thesis
    by (simp add: textsofar_def thinkOpens_def thinkCloses_def isInThinkTag_def
        originalThinkCloses_def isnotedgecase_def)
qed

section \<open>Properties of the line parser\<close>

lemma indexOf_None_lines: "indexOf newline s = None \<Longrightarrow> complete_lines s = []"
  by (induction s) (auto split: if_splits)

lemma indexOf_Some_lines:
  "indexOf newline s = Some i \<Longrightarrow>
   complete_lines (s @ t) = take i s # complete_lines (drop (Suc i) s @ t)"
proof (induction s arbitrary: i)
  case Nil
  then show ?case by simp
next
  case (Cons c s)
  show ?case
  proof (cases "c = newline")
    case True
    with Cons.prems show ?thesis by simp
  next
    case False
    with Cons.prems obtain j where j: "indexOf newline s = Some j" "i = Suc j" by auto
    from Cons.IH [OF j(1)] False j(2) show ?thesis by simp
  qed
qed

lemma done_line_iff:
  "(startsWith l ''data: '' \<and> drop 6 l = ''[DONE]'') = (l = ''data: [DONE]'')"
proof
  assume a: "startsWith l ''data: '' \<and> drop 6 l = ''[DONE]''"
  then obtain r where "l = ''data: '' @ r" by (auto simp: startsWith_def prefix_def)
  with a show "l = ''data: [DONE]''" by simp
next
  assume "l = ''data: [DONE]''"
  then show "startsWith l ''data: '' \<and> drop 6 l = ''[DONE]''"
    by (simp add: startsWith_def)
qed

lemma values_of_lines_Nil: "values_of_lines parse [] = []"
  by (simp add: values_of_lines_def List.map_filter_simps)

lemma values_of_lines_Cons:
  "values_of_lines parse (l # ls) =
     (if l = ''data: [DONE]'' then []
      else if startsWith l ''data: '' then
        (case parse (drop 6 l) of Some x \<Rightarrow> x # values_of_lines parse ls
                                | None \<Rightarrow> values_of_lines parse ls)
      else values_of_lines parse ls)"
  by (simp add: values_of_lines_def startsWith_def List.map_filter_simps split: option.splits)

lemma line_loop_None:
  "indexOf newline buf = None \<Longrightarrow> line_loop parse buf rs n = read_loop parse buf rs n"
  by (simp add: line_loop.simps)

lemma line_loop_Some:
  "indexOf newline buf = Some i \<Longrightarrow>
   line_loop parse buf rs n =
     (if trim (take i buf) = ''data: [DONE]'' then
        (IterDone, \<lparr>phase = Completed, buffer = drop (Suc i) buf,
                    rd = \<lparr>pending = rs, cancel_calls = Suc n\<rparr>\<rparr>)
      else if startsWith (trim (take i buf)) ''data: '' then
        (case parse (drop 6 (trim (take i buf))) of
           Some parsed \<Rightarrow>
             (IterValue parsed, \<lparr>phase = SuspendedYield, buffer = drop (Suc i) buf,
                                 rd = \<lparr>pending = rs, cancel_calls = n\<rparr>\<rparr>)
         | None \<Rightarrow> line_loop parse (drop (Suc i) buf) rs n)
      else line_loop parse (drop (Suc i) buf) rs n)"
  using done_line_iff [of "trim (take i buf)"]
  by (subst line_loop.simps) (auto simp: Let_def)

lemma loops_refine:
  "list_all is_value rs \<Longrightarrow> indexOf newline buf = None \<Longrightarrow>
     step_ok parse (buf @ text_of rs) (read_loop parse buf rs n)"
  "list_all is_value rs \<Longrightarrow> step_ok parse (buf @ text_of rs) (line_loop parse buf rs n)"
proof (induction parse buf rs n and parse buf rs n rule: read_loop_line_loop.induct)
  case (1 parse buf n)
  then show ?case
    by (simp add: step_ok_def trimmed_values_def indexOf_None_lines values_of_lines_Nil)
next
  case (2 parse buf e rs n)
  then show ?case by simp
next
  case (3 parse buf v rs n)
  then show ?case by simp
next
  case (4 parse buf rs n)
  show ?case
  proof (cases "indexOf newline buf")
    case None
    with 4 show ?thesis by (simp add: line_loop_None)
  next
    case (Some i)
    let ?line = "trim (take i buf)"
    let ?buf' = "drop (i + 1) buf"
    have tv: "trimmed_values parse (buf @ text_of rs) =
       values_of_lines parse (?line # map trim (complete_lines (?buf' @ text_of rs)))"
      by (simp add: trimmed_values_def indexOf_Some_lines [OF Some])
    show ?thesis
    proof (cases "?line = ''data: [DONE]''")
      case True
      then show ?thesis using "4.prems" tv
        by (simp add: line_loop_Some [OF Some] step_ok_def values_of_lines_Cons)
    next
      case nd: False
      show ?thesis
      proof (cases "startsWith ?line ''data: ''")
        case False
        have "step_ok parse (?buf' @ text_of rs) (line_loop parse ?buf' rs n)"
          using "4.IH"(3) [OF Some refl refl False "4.prems"] .
        then show ?thesis using False nd tv
          by (simp add: line_loop_Some [OF Some] step_ok_def values_of_lines_Cons trimmed_values_def)
      next
        case sw: True
        have nd': "drop 6 ?line \<noteq> ''[DONE]''" using nd sw done_line_iff by blast
        show ?thesis
        proof (cases "parse (drop 6 ?line)")
          case None
          have "step_ok parse (?buf' @ text_of rs) (line_loop parse ?buf' rs n)"
            using "4.IH"(2) [OF Some refl refl sw refl nd' None "4.prems"] .
          then show ?thesis using sw nd None tv
            by (simp add: line_loop_Some [OF Some] step_ok_def values_of_lines_Cons trimmed_values_def)
        next
          case (Some x)
          then show ?thesis using sw nd tv "4.prems"
            by (simp add: line_loop_Some [OF \<open>indexOf newline buf = Some i\<close>] step_ok_def
                values_of_lines_Cons trimmed_values_def)
        qed
      qed
    qed
  qed
qed

lemma gen_next_refines:
  assumes "list_all is_value (pending (rd g))"
  shows "list_all is_value (pending (rd (snd (gen_next parse g)))) \<and>
     (case expected parse g of
        [] \<Rightarrow> fst (gen_next parse g) = IterDone \<and> expected parse (snd (gen_next parse g)) = []
      | x # xs \<Rightarrow> fst (gen_next parse g) = IterValue x
                 \<and> expected parse (snd (gen_next parse g)) = xs)"
proof (cases "phase g")
  case SuspendedStart
  have "step_ok parse ([] @ text_of (pending (rd g)))
          (read_loop parse [] (pending (rd g)) (cancel_calls (rd g)))"
    using assms by (intro loops_refine(1)) simp_all
  then show ?thesis using SuspendedStart
    by (auto simp: gen_next_def expected_def step_ok_def split: list.splits)
next
  case SuspendedYield
  have "step_ok parse (buffer g @ text_of (pending (rd g)))
          (line_loop parse (buffer g) (pending (rd g)) (cancel_calls (rd g)))"
    using assms by (intro loops_refine(2))
  then show ?thesis using SuspendedYield
    by (auto simp: gen_next_def expected_def step_ok_def split: list.splits)
next
  case Completed
  then show ?thesis using assms by (simp add: gen_next_def expected_def)
qed

lemma drive_nexts_refines:
  "list_all is_value (pending (rd g)) \<Longrightarrow>
   fst (drive parse (replicate k Next) g)
     = take k (map IterValue (expected parse g))
       @ replicate (k - length (expected parse g)) IterDone"
proof (induction k arbitrary: g)
  case 0
  then show ?case by simp
next
  case (Suc k)
  let ?g' = "snd (gen_next parse g)"
  from gen_next_refines [OF Suc.prems, of parse]
  have ok: "list_all is_value (pending (rd ?g'))"
    and st: "(case expected parse g of
        [] \<Rightarrow> fst (gen_next parse g) = IterDone \<and> expected parse ?g' = []
      | x # xs \<Rightarrow> fst (gen_next parse g) = IterValue x \<and> expected parse ?g' = xs)"
    by simp_all
  have ih: "fst (drive parse (replicate k Next) ?g')
     = take k (map IterValue (expected parse ?g'))
       @ replicate (k - length (expected parse ?g')) IterDone"
    using Suc.IH [OF ok] .
  have dr: "fst (drive parse (replicate (Suc k) Next) g)
      = fst (gen_next parse g) # fst (drive parse (replicate k Next) ?g')"
    by (simp add: split_beta answer_def)
  show ?case
  proof (cases "expected parse g")
    case Nil
    with st ih dr show ?thesis by simp
  next
    case (Cons x xs)
    with st ih dr show ?thesis by simp
  qed
qed

lemma text_of_values: "text_of (map ReadValue cs) = concat cs"
  by (induction cs) simp_all

text \<open>
  C6, as the claim states it, fails: the only line of the input
  \<open>  data: {"text":"a"}\<close> (two spaces first) is not prefixed \<open>data: \<close>, so the
  input has no value as the claim words it; the parser trims the line first and yields
  the object parsed from it.
\<close>

theorem C6_counterexample:
  \<open>fst (drive sample_parse [Next, Next]
          (asyncIteratorFromReader
             \<lparr>pending = [ReadValue (''  data: {"text":"a"}'' @ [newline])],
              cancel_calls = 0\<rparr>))
     = [IterValue (JObject [(''text'', JString ''a'')]), IterDone]
   \<and> claimed_values sample_parse (''  data: {"text":"a"}'' @ [newline]) = []\<close>
  by (simp add: asyncIteratorFromReader_def answer_def gen_next_def line_loop.simps newline_def
      trim_def is_space_def startsWith_def sample_parse_def claimed_values_def
      values_of_lines_def List.map_filter_simps)

text \<open>
  C6, amended. However the text arrives cut into chunks, the answers to \<open>k\<close> calls of
  \<open>next()\<close> are, in order, the values parsed from the newline-terminated lines that,
  once trimmed of white space at both ends, are prefixed \<open>data: \<close>, up to the first
  line that trimmed is \<open>data: [DONE]\<close>, without the payloads that do not parse; after
  them every answer is done. Other lines, blank ones among them, add nothing. In
  particular the input \<open>data: {"text":"a"}\<close>, a blank line, \<open>data: [DONE]\<close> yields
  what \<open>{"text":"a"}\<close> parses to and is then done.
\<close>

theorem C6_yields_values_of_trimmed_lines:
  \<open>fst (drive parse (replicate k Next)
          (asyncIteratorFromReader \<lparr>pending = map ReadValue chunks, cancel_calls = 0\<rparr>))
     = take k (map IterValue (trimmed_values parse (concat chunks)))
       @ replicate (k - length (trimmed_values parse (concat chunks))) IterDone
   \<and> fst (drive parse [Next, Next]
          (asyncIteratorFromReader
             \<lparr>pending = [ReadValue (''data: {"text":"a"}'' @ [newline] @ [newline]
                                      @ ''data: [DONE]'' @ [newline])],
              cancel_calls = 0\<rparr>))
     = (case parse ''{"text":"a"}'' of
          Some v \<Rightarrow> [IterValue v, IterDone]
        | None \<Rightarrow> [IterDone, IterDone])\<close>
proof -
  have gen: "fst (drive p (replicate k Next)
          (asyncIteratorFromReader \<lparr>pending = map ReadValue cs, cancel_calls = 0\<rparr>))
     = take k (map IterValue (trimmed_values p (concat cs)))
       @ replicate (k - length (trimmed_values p (concat cs))) IterDone"
    for p :: "string \<Rightarrow> 'x option" and k cs
  proof -
    let ?g = "asyncIteratorFromReader \<lparr>pending = map ReadValue cs, cancel_calls = 0\<rparr>"
    have "list_all is_value (pending (rd ?g))"
      by (simp add: asyncIteratorFromReader_def list_all_iff)
    from drive_nexts_refines [OF this, of p k]
    show ?thesis by (simp add: expected_def asyncIteratorFromReader_def text_of_values)
  qed
  have ex: \<open>fst (drive parse [Next, Next]
          (asyncIteratorFromReader
             \<lparr>pending = [ReadValue (''data: {"text":"a"}'' @ [newline] @ [newline]
                                      @ ''data: [DONE]'' @ [newline])],
              cancel_calls = 0\<rparr>))
     = (case parse ''{"text":"a"}'' of
          Some v \<Rightarrow> [IterValue v, IterDone]
        | None \<Rightarrow> [IterDone, IterDone])\<close>
    by (simp add: asyncIteratorFromReader_def answer_def gen_next_def line_loop.simps newline_def
        trim_def is_space_def startsWith_def split: option.splits)
  from gen [of parse k chunks] ex show ?thesis by blast
qed

subsection \<open>Release of the reader\<close>










section \<open>Properties of the adapters\<close>

subsection \<open>\<open>makeOpenRouterApiCall\<close> and a failed response\<close>

lemma show_nat_404: "show_nat 404 = ''404''"
  by (simp add: show_nat.simps)

text \<open>
  C7. When the response of the request has a status that is not a success
  (\<open>response.ok\<close> is false), the call rejects with
  \<open>OpenRouter API Error: OpenRouter API call failed with status N\<close>; all it has done
  is the console line, the request and the error line: \<open>getReader()\<close> was not called
  and no stream was made.
\<close>

theorem C7_non_success_status_rejects:
  assumes "fetch (makeOpenRouterApiCall_request apiKey chatContext systemMessage model temperature)
             = Inr response"
    and "\<not> resp_ok response"
  shows "makeOpenRouterApiCall fetch apiKey chatContext systemMessage model maxTokens temperature
     = (Inl (''OpenRouter API Error: OpenRouter API call failed with status ''
               @ show_nat (resp_status response)),
        [ConsoleLog ''Making OpenRouter API call with model: [object Object]'', Fetch,
         ConsoleError (''OpenRouter API call failed with status ''
               @ show_nat (resp_status response))])"
  using assms by (simp add: makeOpenRouterApiCall_def Let_def)

theorem C7_non_success_status_rejects_witness:
  "\<not> resp_ok \<lparr>resp_ok = False, resp_status = 404,
                resp_body = Some \<lparr>pending = [], cancel_calls = 0\<rparr>\<rparr>
   \<and> makeOpenRouterApiCall
        (\<lambda>request. Inr \<lparr>resp_ok = False, resp_status = 404,
                          resp_body = Some \<lparr>pending = [], cancel_calls = 0\<rparr>\<rparr>)
        ''key'' [user_message ImageNull] ''system'' \<lparr>model_name = ''m'', model_type = 1\<rparr> 100 (7::nat)
     = (Inl ''OpenRouter API Error: OpenRouter API call failed with status 404'',
        [ConsoleLog ''Making OpenRouter API call with model: [object Object]'', Fetch,
         ConsoleError ''OpenRouter API call failed with status 404''])"
  using C7_non_success_status_rejects [of
      "\<lambda>request. Inr \<lparr>resp_ok = False, resp_status = 404,
                        resp_body = Some \<lparr>pending = [], cancel_calls = 0\<rparr>\<rparr>"
      "''key''" "[user_message ImageNull]" "''system''" "\<lparr>model_name = ''m'', model_type = 1\<rparr>"
      "7::nat"
      "\<lparr>resp_ok = False, resp_status = 404, resp_body = Some \<lparr>pending = [], cancel_calls = 0\<rparr>\<rparr>"
      100]
  by (simp add: show_nat_404)

subsection \<open>\<open>makeClaudeApiCall\<close> and a missing image\<close>

lemma awaited_rejected_later: "awaited p f = Rejected t m \<Longrightarrow> 0 < t"
  by (cases p) auto

lemma claude_message_of_rejected_later:
  assumes "msg_image msg \<noteq> ImageUndefined" and "claude_message_of convert msg = Rejected t m"
  shows "0 < t"
proof (cases "msg_image msg")
  case ImageUndefined
  with assms(1) show ?thesis by simp
next
  case ImageNull
  with assms(2) show ?thesis by (simp add: claude_message_of_def)
next
  case (ImageArray imgs)
  with assms(2) show ?thesis
    by (auto simp: claude_message_of_def dest: awaited_rejected_later)
qed

lemma first_rejection_undefined_image:
  assumes "msg \<in> set chatContext" and "msg_image msg = ImageUndefined"
  shows "first_rejection (map (claude_message_of convert) chatContext)
     = Some (0, type_error_reading ''map'')"
  using assms(1)
proof (induction chatContext)
  case Nil
  then show ?case by simp
next
  case (Cons x xs)
  show ?case
  proof (cases "claude_message_of convert x")
    case (Fulfilled v)
    then have "x \<noteq> msg" using assms(2) by (auto simp: claude_message_of_def)
    with Cons Fulfilled show ?thesis by simp
  next
    case (Rejected t m)
    show ?thesis
    proof (cases "msg_image x = ImageUndefined")
      case True
      then have "claude_message_of convert x = Rejected 0 (type_error_reading ''map'')"
        by (simp add: claude_message_of_def)
      then show ?thesis by (simp split: option.splits)
    next
      case False
      then have "x \<noteq> msg" using assms(2) by auto
      with Cons have ih: "first_rejection (map (claude_message_of convert) xs)
          = Some (0, type_error_reading ''map'')" by simp
      from claude_message_of_rejected_later [OF False Rejected] have "0 < t" .
      with ih Rejected show ?thesis by simp
    qed
  qed
qed

lemma promise_all_undefined_image:
  assumes "msg \<in> set chatContext" and "msg_image msg = ImageUndefined"
  shows "promise_all (map (claude_message_of convert) chatContext)
     = Rejected 0 (type_error_reading ''map'')"
  by (simp add: promise_all_def first_rejection_undefined_image [OF assms])

text \<open>
  C9. A message is serialized with a plain string as its content exactly when its
  \<open>image\<close> is \<open>null\<close>. For a message whose \<open>image\<close> is \<open>undefined\<close> the
  callback throws the \<open>TypeError\<close> of \<open>msg.image.map\<close>, and a call whose chat
  context has such a message rejects with that error wrapped as \<open>Claude API Error\<close>,
  whatever the other messages, the image fetches and the SDK would do.
\<close>

theorem C9_undefined_image_rejects:
  assumes "msg \<in> set chatContext" and "msg_image msg = ImageUndefined"
  shows "is_plain (claude_message_of convert m) = (msg_image m = ImageNull)
   \<and> claude_message_of convert msg = Rejected 0 (type_error_reading ''map'')
   \<and> makeClaudeApiCall create fetch base64 apiKey chatContext systemMessage model maxTokens temperature
       = Inl (''Claude API Error: '' @ type_error_reading ''map'')"
proof -
  have a: "is_plain (claude_message_of convert m) = (msg_image m = ImageNull)"
  proof (cases "msg_image m")
    case ImageUndefined
    then show ?thesis by (simp add: claude_message_of_def)
  next
    case ImageNull
    then show ?thesis by (simp add: claude_message_of_def)
  next
    case (ImageArray imgs)
    then show ?thesis
      by (cases "promise_all (map (\<lambda>img. awaited (convert (url img))
                    (\<lambda>data. ImageBlock (media_type img) data)) imgs)")
         (simp_all add: claude_message_of_def)
  qed
  have b: "claude_message_of convert msg = Rejected 0 (type_error_reading ''map'')"
    using assms(2) by (simp add: claude_message_of_def)
  have c: "makeClaudeApiCall create fetch base64 apiKey chatContext systemMessage model maxTokens
       temperature = Inl (''Claude API Error: '' @ type_error_reading ''map'')"
    unfolding makeClaudeApiCall_def
    by (simp add: promise_all_undefined_image [OF assms])
  from a b c show ?thesis by blast
qed

theorem C9_undefined_image_rejects_witness:
  "user_message ImageUndefined \<in> set [user_message ImageNull, user_message ImageUndefined]
   \<and> msg_image (user_message ImageUndefined) = ImageUndefined
   \<and> makeClaudeApiCall (\<lambda>client request. Inr ''stream'')
        (\<lambda>u. (1, Inr \<lparr>resp_ok = True, resp_status = 200, resp_body = ''bytes''\<rparr>)) (\<lambda>b. b)
        ''key'' [user_message ImageNull, user_message ImageUndefined] ''system'' 1 100 (7::nat)
     = Inl (''Claude API Error: Cannot read properties of undefined (reading ''
              @ [CHR 0x27] @ ''map'' @ [CHR 0x27] @ '')'')"
proof -
  have m: "user_message ImageUndefined \<in> set [user_message ImageNull, user_message ImageUndefined]"
    by simp
  have i: "msg_image (user_message ImageUndefined) = ImageUndefined"
    by (simp add: user_message_def)
  from C9_undefined_image_rejects [OF m i, of
      "convertToBase64 (\<lambda>u. (1, Inr \<lparr>resp_ok = True, resp_status = 200, resp_body = ''bytes''\<rparr>)) (\<lambda>b. b)"
      "user_message ImageNull"
      "\<lambda>client request. Inr ''stream''"
      "\<lambda>u. (1, Inr \<lparr>resp_ok = True, resp_status = 200, resp_body = ''bytes''\<rparr>)" "\<lambda>b. b"
      "''key''" "''system''" 1 100 "7::nat"]
  have "makeClaudeApiCall (\<lambda>client request. Inr ''stream'')
        (\<lambda>u. (1, Inr \<lparr>resp_ok = True, resp_status = 200, resp_body = ''bytes''\<rparr>)) (\<lambda>b. b)
        ''key'' [user_message ImageNull, user_message ImageUndefined] ''system'' 1 100 (7::nat)
     = Inl (''Claude API Error: '' @ type_error_reading ''map'')"
    by blast
  with m i show ?thesis by (simp add: type_error_reading_def)
qed

text \<open>
  C10. Two invocations of \<open>makeGrokApiCall\<close> that agree on the api key, the chat
  context and the system message build the same request and have the same outcome,
  whatever their \<open>model\<close>, \<open>maxTokens\<close> and \<open>temperature\<close>. The request has
  the model name, the messages and the stream flag only, and the model name is the vision
  model exactly when some message of the chat context has a non-empty image array.
\<close>

theorem C10_grok_request_ignores_model_tokens_temperature:
  "makeGrokApiCall_request chatContext systemMessage model1 maxTokens1 temperature1
     = makeGrokApiCall_request chatContext systemMessage model2 maxTokens2 temperature2
   \<and> makeGrokApiCall create apiKey chatContext systemMessage model1 maxTokens1 temperature1
     = makeGrokApiCall create apiKey chatContext systemMessage model2 maxTokens2 temperature2
   \<and> makeGrokApiCall_request chatContext systemMessage model1 maxTokens1 temperature1
     = \<lparr>req_model = (if list_ex has_images chatContext then ''grok-2-vision-1212''
                      else ''grok-2-1212''),
        req_messages = formatMessages chatContext systemMessage,
        req_stream = True, req_max_completion_tokens = None, req_temperature = None\<rparr>"
  by (simp add: makeGrokApiCall_def makeGrokApiCall_request_def Let_def)

end
